theory Spec2Isabelle
  imports Complex_Main "HOL-Library.Sublist"
begin

section \<open>Python values\<close>

text \<open>
  The application of \<^verbatim>\<open>Updated/app.py\<close> keeps a requested configuration in a Python
  dictionary whose values come from a decoded JSON document, prices it against a catalog
  of SKUs and lets the user drop, restore and adjust four numeric fields. The model below
  follows that file function by function. Exceptions are values of type \<open>error\<close>; a
  function that can raise returns \<open>error + 'a\<close> with \<open>Inl\<close> for the exception.
\<close>

datatype error = ValueError | TypeError | OverflowError | KeyError | StreamlitAPIException

definition bind_err :: "error + 'a \<Rightarrow> ('a \<Rightarrow> error + 'b) \<Rightarrow> error + 'b" where
  "bind_err m f = (case m of Inl e \<Rightarrow> Inl e | Inr x \<Rightarrow> f x)"

subsection \<open>Binary floating point\<close>

text \<open>
  A Python float is an IEEE 754 binary64 number. A finite one is modelled by the rational
  number it denotes, so that equality in the model is numeric equality; the sign of zero
  is not kept, since the code only multiplies, adds, rounds and compares prices.
  \<open>to_double\<close> rounds a rational to the nearest binary64 number, ties to even, with the
  gradual underflow below \<open>2 powi -1022\<close> and the overflow to an infinity from
  \<open>2 powi 1024\<close> on.
\<close>

datatype pyfloat = Fin rat | PosInf | NegInf | NaN

fun bitlen :: "nat \<Rightarrow> nat" where
  "bitlen n = (if n = 0 then 0 else Suc (bitlen (n div 2)))"

declare bitlen.simps [simp del]

definition pow2 :: "int \<Rightarrow> rat" where
  "pow2 k = power_int 2 k"

definition ilog2 :: "rat \<Rightarrow> int" where
  "ilog2 a = (case quotient_of a of (p, q) \<Rightarrow>
     (let d = int (bitlen (nat p)) - int (bitlen (nat q))
      in if pow2 d \<le> a then d else d - 1))"

definition round_half_even :: "rat \<Rightarrow> int" where
  "round_half_even x =
     (let f = \<lfloor>x\<rfloor>; d = x - of_int f
      in if d < 1 / 2 then f else if 1 / 2 < d then f + 1 else if even f then f else f + 1)"

definition to_double :: "rat \<Rightarrow> pyfloat" where
  "to_double r =
     (if r = 0 then Fin 0
      else let a = \<bar>r\<bar>;
               e = max (ilog2 a) (- 1022);
               q = pow2 (e - 52);
               v = of_int (round_half_even (a / q)) * q
           in if pow2 1024 \<le> v then (if 0 < r then PosInf else NegInf)
              else Fin (if 0 < r then v else - v))"

text \<open>A float literal of the source, such as \<^verbatim>\<open>0.03\<close>, is the nearest binary64 number.\<close>

definition float_lit :: "rat \<Rightarrow> pyfloat" where
  "float_lit r = to_double r"

text \<open>Converting an \<^verbatim>\<open>int\<close> operand to float raises OverflowError when it is too large.\<close>

definition float_of_int :: "int \<Rightarrow> error + pyfloat" where
  "float_of_int n = (case to_double (of_int n) of Fin v \<Rightarrow> Inr (Fin v) | _ \<Rightarrow> Inl OverflowError)"

fun fsign :: "pyfloat \<Rightarrow> int" where
  "fsign (Fin a) = (if 0 < a then 1 else if a < 0 then - 1 else 0)"
| "fsign PosInf = 1"
| "fsign NegInf = - 1"
| "fsign NaN = 0"

fun fmul :: "pyfloat \<Rightarrow> pyfloat \<Rightarrow> pyfloat" where
  "fmul NaN y = NaN"
| "fmul x NaN = NaN"
| "fmul (Fin a) (Fin b) = to_double (a * b)"
| "fmul x y =
     (let s = fsign x * fsign y
      in if s = 0 then NaN else if 0 < s then PosInf else NegInf)"

fun fadd :: "pyfloat \<Rightarrow> pyfloat \<Rightarrow> pyfloat" where
  "fadd NaN y = NaN"
| "fadd x NaN = NaN"
| "fadd (Fin a) (Fin b) = to_double (a + b)"
| "fadd PosInf NegInf = NaN"
| "fadd NegInf PosInf = NaN"
| "fadd (Fin a) y = y"
| "fadd x y = x"

text \<open>
  \<^verbatim>\<open>x / 1e9\<close>: the divisor is the finite non-zero constant \<open>10 ^ 9\<close>, which binary64
  holds exactly.
\<close>

fun fdiv_1e9 :: "pyfloat \<Rightarrow> pyfloat" where
  "fdiv_1e9 (Fin a) = to_double (a / 10 ^ 9)"
| "fdiv_1e9 x = x"

text \<open>
  \<^verbatim>\<open>round(x, 2)\<close> on a float rounds the exact value of \<open>x\<close> to two decimals, ties to even,
  and converts the decimal back to binary64; infinities and NaN round to themselves.
\<close>

fun float_round2 :: "pyfloat \<Rightarrow> error + pyfloat" where
  "float_round2 (Fin a) =
     (case to_double (of_int (round_half_even (a * 100)) / 100) of
        Fin v \<Rightarrow> Inr (Fin v)
      | _ \<Rightarrow> Inl OverflowError)"
| "float_round2 x = Inr x"

subsection \<open>Numbers of mixed type\<close>

text \<open>
  The prices that enter the total are floats taken from the catalog or the integer \<open>0\<close>
  that replaces a missing or zero price; the counts are integers.
\<close>

datatype pynum = NInt int | NFloat pyfloat

fun num_to_float :: "pynum \<Rightarrow> error + pyfloat" where
  "num_to_float (NInt n) = float_of_int n"
| "num_to_float (NFloat f) = Inr f"

fun num_mul :: "pynum \<Rightarrow> pynum \<Rightarrow> error + pynum" where
  "num_mul (NInt a) (NInt b) = Inr (NInt (a * b))"
| "num_mul x y =
     bind_err (num_to_float x) (\<lambda>f. bind_err (num_to_float y) (\<lambda>g. Inr (NFloat (fmul f g))))"

fun num_add :: "pynum \<Rightarrow> pynum \<Rightarrow> error + pynum" where
  "num_add (NInt a) (NInt b) = Inr (NInt (a + b))"
| "num_add x y =
     bind_err (num_to_float x) (\<lambda>f. bind_err (num_to_float y) (\<lambda>g. Inr (NFloat (fadd f g))))"

fun py_round2 :: "pynum \<Rightarrow> error + pynum" where
  "py_round2 (NInt n) = Inr (NInt n)"
| "py_round2 (NFloat f) = bind_err (float_round2 f) (\<lambda>g. Inr (NFloat g))"

subsection \<open>Values of a decoded JSON document\<close>

datatype pyval =
    PNone
  | PBool bool
  | PInt int
  | PFloat pyfloat
  | PStr string
  | PList "pyval list"
  | PDict "(string \<times> pyval) list"

type_synonym config = "string \<rightharpoonup> pyval"

definition dict_get :: "config \<Rightarrow> string \<Rightarrow> pyval \<Rightarrow> pyval" where
  "dict_get d k dflt = (case d k of None \<Rightarrow> dflt | Some v \<Rightarrow> v)"

fun truthy :: "pyval \<Rightarrow> bool" where
  "truthy PNone = False"
| "truthy (PBool b) = b"
| "truthy (PInt n) = (n \<noteq> 0)"
| "truthy (PFloat f) = (f \<noteq> Fin 0)"
| "truthy (PStr s) = (s \<noteq> [])"
| "truthy (PList xs) = (xs \<noteq> [])"
| "truthy (PDict kvs) = (kvs \<noteq> [])"

definition py_or :: "pyval \<Rightarrow> pyval \<Rightarrow> pyval" where
  "py_or a b = (if truthy a then a else b)"

subsection \<open>Strings\<close>

text \<open>
  Strings are lists of 8-bit characters, so the model covers the code points below 256.
  \<^verbatim>\<open>a in b\<close> on two strings is the substring test.
\<close>

fun str_in :: "string \<Rightarrow> string \<Rightarrow> bool" where
  "str_in sub [] = (sub = [])"
| "str_in sub (c # cs) = (prefix sub (c # cs) \<or> str_in sub cs)"

definition is_digit :: "char \<Rightarrow> bool" where
  "is_digit c = (c \<in> set ''0123456789'')"

definition digit_val :: "char \<Rightarrow> int" where
  "digit_val c = int (of_char c) - 48"

definition digits_value :: "string \<Rightarrow> int" where
  "digits_value ds = foldl (\<lambda>a c. 10 * a + digit_val c) 0 ds"

text \<open>
  The white space that \<^verbatim>\<open>int(s)\<close> strips: the ASCII white space, and the two further
  space characters below 256, which the conversion first turns into blanks.
\<close>

definition is_space :: "char \<Rightarrow> bool" where
  "is_space c = (c \<in> {CHR 0x09, CHR 0x0A, CHR 0x0B, CHR 0x0C, CHR 0x0D, CHR '' '', CHR 0x85, CHR 0xA0})"

definition is_digit_or_us :: "char \<Rightarrow> bool" where
  "is_digit_or_us c = (is_digit c \<or> c = CHR ''_'')"

text \<open>
  \<^verbatim>\<open>int(s)\<close> in base 10: optional white space, an optional sign, decimal digits that single
  underscores may separate, optional white space. More than 4300 digits are refused
  (the default limit of CPython 3.11).
\<close>

definition int_of_str :: "string \<Rightarrow> error + int" where
  "int_of_str s =
     (let t = dropWhile is_space s;
          neg = (t \<noteq> [] \<and> hd t = CHR ''-'');
          u = (if t \<noteq> [] \<and> (hd t = CHR ''-'' \<or> hd t = CHR ''+'') then tl t else t);
          body = takeWhile is_digit_or_us u;
          rest = dropWhile is_digit_or_us u;
          ds = filter is_digit body
      in if body \<noteq> [] \<and> is_digit (hd body) \<and> is_digit (last body)
            \<and> \<not> str_in ''__'' body \<and> list_all is_space rest \<and> length ds \<le> 4300
         then Inr (if neg then - digits_value ds else digits_value ds)
         else Inl ValueError)"

text \<open>\<^verbatim>\<open>int(v)\<close>: a float is truncated towards zero.\<close>

fun py_int :: "pyval \<Rightarrow> error + int" where
  "py_int (PInt n) = Inr n"
| "py_int (PBool b) = Inr (if b then 1 else 0)"
| "py_int (PFloat (Fin a)) = Inr (if 0 \<le> a then \<lfloor>a\<rfloor> else \<lceil>a\<rceil>)"
| "py_int (PFloat NaN) = Inl ValueError"
| "py_int (PFloat x) = Inl OverflowError"
| "py_int (PStr s) = int_of_str s"
| "py_int v = Inl TypeError"

fun digits_of :: "nat \<Rightarrow> string" where
  "digits_of n =
     (if n < 10 then [''0123456789'' ! n]
      else digits_of (n div 10) @ [''0123456789'' ! (n mod 10)])"

declare digits_of.simps [simp del]

definition str_of_int :: "int \<Rightarrow> string" where
  "str_of_int n = (if n < 0 then CHR ''-'' # digits_of (nat (- n)) else digits_of (nat n))"

text \<open>
  \<^verbatim>\<open>str(v)\<close>. The text of a float, a list or a dictionary is not computed: it contains
  a \<^verbatim>\<open>.\<close>, an \<^verbatim>\<open>e\<close>, \<^verbatim>\<open>inf\<close>, \<^verbatim>\<open>nan\<close> or a bracket, so it is neither a key of the
  GPU table nor a date of the format \<^verbatim>\<open>%Y-%m-%d\<close>, the only two uses of \<^verbatim>\<open>str\<close>
  in the code modelled here. \<open>None\<close> stands for such a text.
\<close>

fun py_str :: "pyval \<Rightarrow> string option" where
  "py_str (PStr s) = Some s"
| "py_str PNone = Some ''None''"
| "py_str (PBool b) = Some (if b then ''True'' else ''False'')"
| "py_str (PInt n) = Some (str_of_int n)"
| "py_str v = None"

subsection \<open>Dates\<close>

text \<open>
  \<^verbatim>\<open>datetime.strptime(s, "%Y-%m-%d").date()\<close>. The format is the regular expression
  \<^verbatim>\<open>(\d\d\d\d)-(1[0-2]|0[1-9]|[1-9])-(3[0-1]|[1-2]\d|0[1-9]|[1-9]| [1-9])\<close>, matched at the
  start of the string, and text left over after the match is an error. Neither the
  month nor the day alternative contains a hyphen, so the month is the text between the
  second and the third hyphen and the day is all that follows. The date must exist:
  the year is at least 1 and the day is within the month. \<open>toordinal\<close> counts the
  days from 0001-01-01, which is day 1; the month of a date is between 1 and 12.
\<close>

type_synonym date = "int \<times> int \<times> int"

definition is_leap :: "int \<Rightarrow> bool" where
  "is_leap y = (y mod 4 = 0 \<and> (y mod 100 \<noteq> 0 \<or> y mod 400 = 0))"

definition days_in_month :: "int \<Rightarrow> int \<Rightarrow> int" where
  "days_in_month y m =
     (if m = 2 then (if is_leap y then 29 else 28)
      else if m \<in> {4, 6, 9, 11} then 30 else 31)"

definition days_before_year :: "int \<Rightarrow> int" where
  "days_before_year y = (y - 1) * 365 + (y - 1) div 4 - (y - 1) div 100 + (y - 1) div 400"

definition days_before_month :: "int \<Rightarrow> int \<Rightarrow> int" where
  "days_before_month y m =
     [0, 31, 59, 90, 120, 151, 181, 212, 243, 273, 304, 334] ! nat (m - 1)
       + (if 2 < m \<and> is_leap y then 1 else 0)"

fun toordinal :: "date \<Rightarrow> int" where
  "toordinal (y, m, d) = days_before_year y + days_before_month y m + d"

fun month_of :: "string \<Rightarrow> int option" where
  "month_of [a] = (if a \<in> set ''123456789'' then Some (digit_val a) else None)"
| "month_of [a, b] =
     (if a = CHR ''1'' \<and> b \<in> set ''012'' then Some (10 + digit_val b)
      else if a = CHR ''0'' \<and> b \<in> set ''123456789'' then Some (digit_val b)
      else None)"
| "month_of s = None"

fun day_of :: "string \<Rightarrow> int option" where
  "day_of [a] = (if a \<in> set ''123456789'' then Some (digit_val a) else None)"
| "day_of [a, b] =
     (if a = CHR ''3'' \<and> b \<in> set ''01'' then Some (30 + digit_val b)
      else if a \<in> set ''12'' \<and> is_digit b then Some (10 * digit_val a + digit_val b)
      else if a = CHR ''0'' \<and> b \<in> set ''123456789'' then Some (digit_val b)
      else if a = CHR '' '' \<and> b \<in> set ''123456789'' then Some (digit_val b)
      else None)"
| "day_of s = None"

definition make_date :: "int \<Rightarrow> int \<Rightarrow> int \<Rightarrow> error + date" where
  "make_date y m d = (if 1 \<le> y \<and> d \<le> days_in_month y m then Inr (y, m, d) else Inl ValueError)"

definition not_hyphen :: "char \<Rightarrow> bool" where
  "not_hyphen c = (c \<noteq> CHR ''-'')"

fun strptime :: "string \<Rightarrow> error + date" where
  "strptime (y1 # y2 # y3 # y4 # h # rest) =
     (if list_all is_digit [y1, y2, y3, y4] \<and> h = CHR ''-''
      then (case dropWhile not_hyphen rest of
              [] \<Rightarrow> Inl ValueError
            | _ # ds \<Rightarrow>
                (case month_of (takeWhile not_hyphen rest) of
                   None \<Rightarrow> Inl ValueError
                 | Some m \<Rightarrow>
                     (case day_of ds of
                        None \<Rightarrow> Inl ValueError
                      | Some d \<Rightarrow> make_date (digits_value [y1, y2, y3, y4]) m d)))
      else Inl ValueError)"
| "strptime s = Inl ValueError"

section \<open>The price catalog\<close>

text \<open>
  \<^verbatim>\<open>skus_price_map\<close> is a dictionary from \<^verbatim>\<open>(description, region, usage type)\<close> to a
  unit price. Python iterates a dictionary in insertion order and the lookup returns at
  the first match, so the catalog is an association list in that order; storing under a
  key that is present replaces the value in place, storing under a new key appends.
\<close>

type_synonym sku_key = "string \<times> string \<times> string"

type_synonym price_map = "(sku_key \<times> pyfloat) list"

fun dict_set :: "('k \<times> 'v) list \<Rightarrow> 'k \<Rightarrow> 'v \<Rightarrow> ('k \<times> 'v) list" where
  "dict_set [] k v = [(k, v)]"
| "dict_set ((k', v') # rest) k v =
     (if k' = k then (k, v) # rest else (k', v') # dict_set rest k v)"

subsection \<open>Ingestion: \<^verbatim>\<open>fetch_pricing_skus\<close>\<close>

text \<open>
  A page of the billing API is a JSON object of the shape
  \<^verbatim>\<open>{skus: [{description, category: {serviceDisplayName, usageType}, serviceRegions,
  pricingInfo: [{pricingExpression: {tieredRates: [{unitPrice: {units, nanos}}]}}]}],
  nextPageToken}\<close>. Each object is a record; a field is \<open>None\<close> when the key is absent,
  which is where the code reads it with \<^verbatim>\<open>.get\<close> and a default, or with a subscript
  that raises KeyError. The amounts \<^verbatim>\<open>units\<close> and \<^verbatim>\<open>nanos\<close> are integers.
\<close>

record unit_price =
  units :: "int option"
  nanos :: "int option"

record tiered_rate =
  unitPrice :: "unit_price option"

record pricing_expression =
  tieredRates :: "tiered_rate list option"

record price_info =
  pricingExpression :: "pricing_expression option"

record sku_category =
  serviceDisplayName :: "string option"
  usageType :: "string option"

record sku =
  description :: "string option"
  category :: "sku_category option"
  serviceRegions :: "string list option"
  pricingInfo :: "price_info list option"

record response =
  skus :: "sku list option"
  nextPageToken :: "string option"

definition get_or :: "'a option \<Rightarrow> 'a \<Rightarrow> 'a" where
  "get_or x dflt = (case x of None \<Rightarrow> dflt | Some v \<Rightarrow> v)"

text \<open>
  \<^verbatim>\<open>units + nanos / 1e9\<close>, with \<^verbatim>\<open>0\<close> for an absent \<^verbatim>\<open>unitPrice\<close>, \<^verbatim>\<open>units\<close> or
  \<^verbatim>\<open>nanos\<close>. The division is evaluated first.
\<close>

definition price_per_unit :: "tiered_rate \<Rightarrow> error + pyfloat" where
  "price_per_unit rate =
     (let unit_price = get_or (unitPrice rate) \<lparr>units = None, nanos = None\<rparr>;
          u = get_or (units unit_price) 0;
          n = get_or (nanos unit_price) 0
      in bind_err (float_of_int n) (\<lambda>nf.
         bind_err (float_of_int u) (\<lambda>uf.
         Inr (fadd uf (fdiv_1e9 nf)))))"

text \<open>
  The loop over \<^verbatim>\<open>pricingInfo\<close> of one SKU. The dictionary is updated in place, so the
  result carries the dictionary as it is when the loop ends or raises, and the exception
  if there is one.
\<close>

fun price_infos_loop :: "sku_key \<Rightarrow> price_info list \<Rightarrow> price_map \<Rightarrow> price_map \<times> error option" where
  "price_infos_loop key [] m = (m, None)"
| "price_infos_loop key (info # rest) m =
     (let pricing_expression = get_or (pricingExpression info) \<lparr>tieredRates = None\<rparr>;
          tiered_rates = get_or (tieredRates pricing_expression) []
      in case tiered_rates of
           [] \<Rightarrow> price_infos_loop key rest m
         | rate # _ \<Rightarrow>
             (case price_per_unit rate of
                Inl e \<Rightarrow> (m, Some e)
              | Inr p \<Rightarrow> price_infos_loop key rest (dict_set m key p)))"

text \<open>The body of the loop over the SKUs of a page.\<close>

definition sku_step :: "sku \<Rightarrow> price_map \<Rightarrow> price_map \<times> error option" where
  "sku_step s m =
     (case category s of
        None \<Rightarrow> (m, Some KeyError)
      | Some cat \<Rightarrow>
          (case serviceDisplayName cat of
             None \<Rightarrow> (m, Some KeyError)
           | Some service_name \<Rightarrow>
               (let sku_desc = get_or (description s) [];
                    usage_type = get_or (usageType cat) [];
                    region = (case serviceRegions s of Some (r # _) \<Rightarrow> r | _ \<Rightarrow> [])
                in if str_in ''Compute Engine'' service_name
                   then price_infos_loop (sku_desc, region, usage_type) (get_or (pricingInfo s) []) m
                   else (m, None))))"

fun skus_loop :: "sku list \<Rightarrow> price_map \<Rightarrow> price_map \<times> error option" where
  "skus_loop [] m = (m, None)"
| "skus_loop (s # rest) m =
     (case sku_step s m of
        (m', Some e) \<Rightarrow> (m', Some e)
      | (m', None) \<Rightarrow> skus_loop rest m')"

text \<open>
  The \<^verbatim>\<open>while True\<close> loop. The billing service is the list of the outcomes of its
  successive \<^verbatim>\<open>execute()\<close> calls, each a page or an exception; a service that has no
  further outcome has failed. Every exception ends the loop, and the function returns
  the dictionary built so far.
\<close>

fun pages_loop :: "(error + response) list \<Rightarrow> price_map \<Rightarrow> price_map" where
  "pages_loop [] m = m"
| "pages_loop (Inl e # rest) m = m"
| "pages_loop (Inr resp # rest) m =
     (case skus_loop (get_or (skus resp) []) m of
        (m', Some e) \<Rightarrow> m'
      | (m', None) \<Rightarrow>
          (if get_or (nextPageToken resp) [] = [] then m' else pages_loop rest m'))"

definition fetch_pricing_skus :: "(error + response) list option \<Rightarrow> string option \<Rightarrow> price_map" where
  "fetch_pricing_skus service billing_account_id =
     (case service of
        None \<Rightarrow> []
      | Some calls \<Rightarrow> (if billing_account_id = None then [] else pages_loop calls []))"

subsection \<open>Lookup: \<^verbatim>\<open>get_price_for_resource\<close>\<close>

fun get_price_for_resource :: "string \<Rightarrow> string \<Rightarrow> string \<Rightarrow> price_map \<Rightarrow> pyfloat option" where
  "get_price_for_resource resource_desc region usage_type [] = None"
| "get_price_for_resource resource_desc region usage_type (((desc, rgn, usage), price) # rest) =
     (if str_in resource_desc desc \<and> (str_in region rgn \<or> rgn = ''global'') \<and> usage = usage_type
      then Some price
      else get_price_for_resource resource_desc region usage_type rest)"

section \<open>Cost estimation: \<^verbatim>\<open>estimate_billing_cost_from_api\<close>\<close>

text \<open>\<^verbatim>\<open>int(config.get(k, 0) or 0)\<close> inside \<^verbatim>\<open>try\<close>, with \<^verbatim>\<open>0\<close> on any exception.\<close>

definition count_field :: "config \<Rightarrow> string \<Rightarrow> int" where
  "count_field config k =
     (case py_int (py_or (dict_get config k (PInt 0)) (PInt 0)) of
        Inl e \<Rightarrow> 0
      | Inr n \<Rightarrow> n)"

text \<open>\<^verbatim>\<open>datetime.strptime(str(config.get(k, "")), "%Y-%m-%d").date()\<close>\<close>

definition date_field :: "config \<Rightarrow> string \<Rightarrow> error + date" where
  "date_field config k =
     (case py_str (dict_get config k (PStr [])) of
        None \<Rightarrow> Inl ValueError
      | Some s \<Rightarrow> strptime s)"

text \<open>The \<^verbatim>\<open>try\<close> block that computes \<^verbatim>\<open>days\<close>, with \<^verbatim>\<open>days = 1\<close> on any exception.\<close>

definition duration_days :: "config \<Rightarrow> int" where
  "duration_days config =
     (case bind_err (date_field config ''start_date'') (\<lambda>start_d.
           bind_err (date_field config ''end_date'') (\<lambda>end_d.
           Inr (max (toordinal end_d - toordinal start_d) 1))) of
        Inl e \<Rightarrow> 1
      | Inr days \<Rightarrow> days)"

text \<open>
  \<^verbatim>\<open>gpu_desc_map\<close>: the key \<^verbatim>\<open>"None"\<close> is present with the value \<^verbatim>\<open>None\<close>, and
  \<^verbatim>\<open>.get(gpu_name, None)\<close> gives \<^verbatim>\<open>None\<close> for every other name that is not in the table.
\<close>

definition gpu_desc_map :: "string \<rightharpoonup> string option" where
  "gpu_desc_map =
     [''None'' \<mapsto> None,
      ''NVIDIA T4'' \<mapsto> Some ''NVIDIA T4'',
      ''NVIDIA A100'' \<mapsto> Some ''NVIDIA A100'',
      ''NVIDIA V100'' \<mapsto> Some ''NVIDIA V100'']"

text \<open>\<^verbatim>\<open>gpu_desc_map.get(str(config.get("gpu", "None") or "None"), None)\<close>\<close>

definition gpu_desc :: "config \<Rightarrow> string option" where
  "gpu_desc config =
     (case py_str (py_or (dict_get config ''gpu'' (PStr ''None'')) (PStr ''None'')) of
        None \<Rightarrow> None
      | Some gpu_name \<Rightarrow> (case gpu_desc_map gpu_name of None \<Rightarrow> None | Some d \<Rightarrow> d))"

text \<open>\<^verbatim>\<open>get_price_for_resource(...) or 0\<close>\<close>

definition price_or_zero :: "pyfloat option \<Rightarrow> pynum" where
  "price_or_zero p = (case p of None \<Rightarrow> NInt 0 | Some f \<Rightarrow> if f = Fin 0 then NInt 0 else NFloat f)"

definition gpu_price :: "config \<Rightarrow> string \<Rightarrow> price_map \<Rightarrow> pynum" where
  "gpu_price config region skus_price_map =
     (case gpu_desc config of
        None \<Rightarrow> NInt 0
      | Some d \<Rightarrow>
          (if d \<noteq> [] then price_or_zero (get_price_for_resource d region ''OnDemand'' skus_price_map)
           else NInt 0))"

text \<open>
  \<^verbatim>\<open>((cpu_price * vcpu_count) + (mem_price * memory_gb) + (storage_price * storage_gb)
  + gpu_price) * hours\<close>, evaluated from left to right.
\<close>

definition total_cost ::
  "pynum \<Rightarrow> int \<Rightarrow> pynum \<Rightarrow> int \<Rightarrow> pynum \<Rightarrow> int \<Rightarrow> pynum \<Rightarrow> int \<Rightarrow> error + pynum" where
  "total_cost cpu_price vcpu_count mem_price memory_gb storage_price storage_gb gpu hours =
     bind_err (num_mul cpu_price (NInt vcpu_count)) (\<lambda>c.
     bind_err (num_mul mem_price (NInt memory_gb)) (\<lambda>m.
     bind_err (num_add c m) (\<lambda>cm.
     bind_err (num_mul storage_price (NInt storage_gb)) (\<lambda>s.
     bind_err (num_add cm s) (\<lambda>cms.
     bind_err (num_add cms gpu) (\<lambda>total.
     num_mul total (NInt hours)))))))"

definition estimate_billing_cost_from_api :: "config \<Rightarrow> string \<Rightarrow> price_map \<Rightarrow> error + (pynum \<times> int)" where
  "estimate_billing_cost_from_api config region skus_price_map =
     (let vcpu_count = count_field config ''compute'';
          memory_gb = count_field config ''memory'';
          storage_gb = count_field config ''storage'';
          days = duration_days config;
          usage_type = ''OnDemand'';
          cpu_price = price_or_zero
            (get_price_for_resource ''N1 Predefined Instance Core'' region usage_type skus_price_map);
          mem_price = price_or_zero
            (get_price_for_resource ''N1 Predefined Instance Ram'' region usage_type skus_price_map);
          storage_price = price_or_zero
            (get_price_for_resource ''SSD'' region usage_type skus_price_map);
          gpu = gpu_price config region skus_price_map;
          hours = days * 24
      in bind_err
           (total_cost cpu_price vcpu_count mem_price memory_gb storage_price storage_gb gpu hours)
           (\<lambda>total. bind_err (py_round2 total) (\<lambda>rounded. Inr (rounded, days))))"

section \<open>Editing the recommendation: \<^verbatim>\<open>show_recommendation_page\<close>\<close>

text \<open>
  The page keeps the configuration \<^verbatim>\<open>editable_rec\<close> and the list \<^verbatim>\<open>removed_fields\<close>.
  The check boxes and the sliders are widgets of the user interface: the value a check
  box returns is the argument \<open>keep\<close>, and the slider is a function of its key, bounds,
  initial value and step that returns the chosen value or raises.
\<close>

type_synonym state = "config \<times> string list"

definition field_names :: "string list" where
  "field_names = [''compute'', ''memory'', ''storage'', ''budget'']"

definition defaults :: "string \<rightharpoonup> int" where
  "defaults = [''compute'' \<mapsto> 4, ''memory'' \<mapsto> 16, ''storage'' \<mapsto> 100, ''budget'' \<mapsto> 1000]"

text \<open>The body of the loop over the check boxes, for one field.\<close>

definition keep_step :: "bool \<Rightarrow> string \<Rightarrow> state \<Rightarrow> state" where
  "keep_step keep field st =
     (case st of (editable_rec, removed_fields) \<Rightarrow>
        if \<not> keep \<and> field \<notin> set removed_fields
        then (editable_rec(field := None), removed_fields @ [field])
        else if keep \<and> field \<in> set removed_fields
        then (if editable_rec field = None
              then editable_rec(field \<mapsto> PInt (get_or (defaults field) 0))
              else editable_rec,
              remove1 field removed_fields)
        else (editable_rec, removed_fields))"

text \<open>The loop itself: each check box starts from whether its field is currently kept.\<close>

definition keep_loop :: "(string \<Rightarrow> bool \<Rightarrow> bool) \<Rightarrow> state \<Rightarrow> state" where
  "keep_loop checkbox st =
     fold (\<lambda>field s. keep_step (checkbox field (field \<notin> set (snd s))) field s) field_names st"

text \<open>Unticking a field's box removes the field, ticking it restores the field.\<close>

definition removeField :: "string \<Rightarrow> state \<Rightarrow> state" where
  "removeField field st = keep_step False field st"

definition restoreField :: "string \<Rightarrow> state \<Rightarrow> state" where
  "restoreField field st = keep_step True field st"

record slider_params =
  col_min :: int
  col_max :: int
  col_step :: int

definition editable_fields :: "string \<rightharpoonup> slider_params" where
  "editable_fields =
     [''compute'' \<mapsto> \<lparr>col_min = 1, col_max = 128, col_step = 1\<rparr>,
      ''memory'' \<mapsto> \<lparr>col_min = 1, col_max = 1024, col_step = 1\<rparr>,
      ''storage'' \<mapsto> \<lparr>col_min = 1, col_max = 20000, col_step = 10\<rparr>,
      ''budget'' \<mapsto> \<lparr>col_min = 0, col_max = 100000, col_step = 100\<rparr>]"

datatype warning = SkippingSlider string | InvalidValue string

type_synonym slider = "string \<Rightarrow> int \<Rightarrow> int \<Rightarrow> int \<Rightarrow> int \<Rightarrow> error + int"

fun is_dict_or_list :: "pyval \<Rightarrow> bool" where
  "is_dict_or_list (PDict kvs) = True"
| "is_dict_or_list (PList xs) = True"
| "is_dict_or_list v = False"

text \<open>
  The body of the loop over the sliders, for one kept field: the new configuration and
  the warnings shown, or the exception of the slider. \<^verbatim>\<open>editable_fields[field]\<close> raises
  KeyError for a name outside the table.
\<close>

definition slider_step :: "slider \<Rightarrow> string \<Rightarrow> config \<Rightarrow> error + (config \<times> warning list)" where
  "slider_step sl field editable_rec =
     (case editable_fields field of
        None \<Rightarrow> Inl KeyError
      | Some params \<Rightarrow>
          (let val_raw = dict_get editable_rec field (PInt 0)
           in if is_dict_or_list val_raw then Inr (editable_rec, [SkippingSlider field])
              else (let (val, ws) = (case py_int val_raw of
                                       Inl e \<Rightarrow> (col_min params, [InvalidValue field])
                                     | Inr n \<Rightarrow> (n, []))
                    in bind_err (sl field (col_min params) (col_max params) val (col_step params))
                         (\<lambda>new_val. Inr (editable_rec(field \<mapsto> PInt new_val), ws)))))"



text \<open>
  A slider as Streamlit shows it when the page is first drawn: it returns its initial
  value, and refuses an initial value outside its bounds.
\<close>

definition first_render :: slider where
  "first_render key lo hi v step = (if lo \<le> v \<and> v \<le> hi then Inr v else Inl StreamlitAPIException)"

section \<open>Properties of the rounding to binary64\<close>

text \<open>
  \<open>ilog2\<close> is the binary exponent of a positive rational. It gives \<open>to_double\<close> in
  closed form on the normal range, which is how the concrete sums below are evaluated.
\<close>

lemma bitlen_pos: "0 < n \<Longrightarrow> 0 < bitlen n"
  by (subst bitlen.simps) simp

lemma bitlen_upper: "n < 2 ^ bitlen n"
proof (induction n rule: bitlen.induct)
  case (1 n)
  show ?case
  proof (cases "n = 0")
    case True
    then show ?thesis by simp
  next
    case False
    from 1 [OF False] have "n div 2 < 2 ^ bitlen (n div 2)" .
    then have "n < 2 * 2 ^ bitlen (n div 2)" by linarith
    moreover have "bitlen n = Suc (bitlen (n div 2))"
      using False by (subst bitlen.simps) simp
    ultimately show ?thesis by simp
  qed
qed

lemma bitlen_lower: "0 < n \<Longrightarrow> 2 ^ (bitlen n - 1) \<le> n"
proof (induction n rule: bitlen.induct)
  case (1 n)
  then have nz: "n \<noteq> 0" by simp
  have bl: "bitlen n = Suc (bitlen (n div 2))"
    using nz by (subst bitlen.simps) simp
  show ?case
  proof (cases "n div 2 = 0")
    case True
    then have "bitlen (n div 2) = 0" by (subst bitlen.simps) simp
    with bl 1 show ?thesis by simp
  next
    case False
    then have pos: "0 < n div 2" by simp
    from 1(1) [OF nz pos] have ih: "2 ^ (bitlen (n div 2) - 1) \<le> n div 2" .
    have "bitlen (n div 2) - 1 + 1 = bitlen (n div 2)"
      using bitlen_pos [OF pos] by simp
    then have "(2::nat) ^ bitlen (n div 2) = 2 * 2 ^ (bitlen (n div 2) - 1)"
      by (metis power_add power_one_right mult.commute)
    with ih have "2 ^ bitlen (n div 2) \<le> n" by linarith
    with bl show ?thesis by simp
  qed
qed

lemma pow2_pos: "0 < pow2 k"
  by (simp add: pow2_def)

lemma pow2_add: "pow2 (i + j) = pow2 i * pow2 j"
  by (simp add: pow2_def power_int_add)

lemma pow2_nat: "pow2 (int n) = 2 ^ n"
  by (simp add: pow2_def)

lemma pow2_less_iff: "pow2 i < pow2 j \<longleftrightarrow> i < j"
  unfolding pow2_def
  by (metis linorder_not_less one_less_numeral_iff power_int_increasing power_int_strict_increasing semiring_norm(76) order_less_imp_le)

lemma ilog2_bounds:
  assumes "0 < a"
  shows "pow2 (ilog2 a) \<le> a \<and> a < pow2 (ilog2 a + 1)"
proof -
  obtain p q where pq: "quotient_of a = (p, q)" by (cases "quotient_of a")
  have q: "0 < q" using pq by (rule quotient_of_denom_pos)
  have a: "a = of_int p / of_int q" using pq by (rule quotient_of_div)
  have p: "0 < p" using assms q a by (simp add: zero_less_divide_iff)
  define bp where "bp = bitlen (nat p)"
  define bq where "bq = bitlen (nat q)"
  define d where "d = int bp - int bq"
  have bp1: "0 < bp" and bq1: "0 < bq"
    using p q by (simp_all add: bp_def bq_def bitlen_pos)
  have "nat p < 2 ^ bp" unfolding bp_def by (rule bitlen_upper)
  then have "of_nat (nat p) < (of_nat (2 ^ bp) :: rat)" by (simp only: of_nat_less_iff)
  then have pu: "(of_int p :: rat) < pow2 (int bp)" using p by (simp add: pow2_nat)
  have "2 ^ (bp - 1) \<le> nat p" unfolding bp_def using p by (intro bitlen_lower) simp
  then have "(of_nat (2 ^ (bp - 1)) :: rat) \<le> of_nat (nat p)" by (simp only: of_nat_le_iff)
  then have pl: "pow2 (int bp - 1) \<le> (of_int p :: rat)"
    using p bp1 pow2_nat [of "bp - 1"] by (simp add: of_nat_diff)
  have "nat q < 2 ^ bq" unfolding bq_def by (rule bitlen_upper)
  then have "of_nat (nat q) < (of_nat (2 ^ bq) :: rat)" by (simp only: of_nat_less_iff)
  then have qu: "(of_int q :: rat) < pow2 (int bq)" using q by (simp add: pow2_nat)
  have "2 ^ (bq - 1) \<le> nat q" unfolding bq_def using q by (intro bitlen_lower) simp
  then have "(of_nat (2 ^ (bq - 1)) :: rat) \<le> of_nat (nat q)" by (simp only: of_nat_le_iff)
  then have ql: "pow2 (int bq - 1) \<le> (of_int q :: rat)"
    using q bq1 pow2_nat [of "bq - 1"] by (simp add: of_nat_diff)
  have qpos: "(0::rat) < of_int q" using q by simp
  have up: "a < pow2 (d + 1)"
  proof -
    have "pow2 (d + 1) * pow2 (int bq - 1) = pow2 (int bp)"
      by (simp add: pow2_add [symmetric] d_def)
    then have "of_int p < pow2 (d + 1) * pow2 (int bq - 1)" using pu by simp
    also have "\<dots> \<le> pow2 (d + 1) * of_int q"
      using ql pow2_pos [of "d + 1"] by (simp add: mult_left_mono)
    finally show ?thesis using qpos by (simp add: a pos_divide_less_eq)
  qed
  have low: "pow2 (d - 1) < a"
  proof -
    have "pow2 (d - 1) * of_int q < pow2 (d - 1) * pow2 (int bq)"
      using qu pow2_pos [of "d - 1"] by (simp add: mult_strict_left_mono)
    also have "\<dots> = pow2 (int bp - 1)"
      by (simp add: pow2_add [symmetric] d_def)
    also have "\<dots> \<le> of_int p" by (rule pl)
    finally show ?thesis using qpos by (simp add: a pos_less_divide_eq)
  qed
  have il: "ilog2 a = (if pow2 d \<le> a then d else d - 1)"
    by (simp add: ilog2_def pq Let_def d_def bp_def bq_def)
  show ?thesis
  proof (cases "pow2 d \<le> a")
    case True
    then show ?thesis using up il by simp
  next
    case False
    then show ?thesis using low il by simp
  qed
qed

lemma ilog2_unique:
  assumes "pow2 e \<le> a" and "a < pow2 (e + 1)"
  shows "ilog2 a = e"
proof -
  have a: "0 < a" using assms(1) pow2_pos [of e] by linarith
  from ilog2_bounds [OF a] have b: "pow2 (ilog2 a) \<le> a" "a < pow2 (ilog2 a + 1)" by simp_all
  have "pow2 e < pow2 (ilog2 a + 1)" using assms(1) b(2) by linarith
  then have 1: "e < ilog2 a + 1" by (simp add: pow2_less_iff)
  have "pow2 (ilog2 a) < pow2 (e + 1)" using assms(2) b(1) by linarith
  then have 2: "ilog2 a < e + 1" by (simp add: pow2_less_iff)
  from 1 2 show ?thesis by linarith
qed

lemma to_double_normal:
  assumes "pow2 e \<le> r" and "r < pow2 (e + 1)" and "- 1022 \<le> e"
    and "of_int (round_half_even (r / pow2 (e - 52))) * pow2 (e - 52) < pow2 1024"
  shows "to_double r = Fin (of_int (round_half_even (r / pow2 (e - 52))) * pow2 (e - 52))"
proof -
  have r: "0 < r" using assms(1) pow2_pos [of e] by linarith
  have "ilog2 r = e" using assms(1,2) by (rule ilog2_unique)
  then have "max (ilog2 \<bar>r\<bar>) (- 1022) = e" using r assms(3) by simp
  then show ?thesis
    using r assms(4) by (simp add: to_double_def Let_def)
qed

lemma floor_numeral_div: "\<lfloor>numeral a / numeral b :: rat\<rfloor> = numeral a div numeral b"
  by (metis floor_divide_of_int_eq of_int_numeral)

lemmas float_eval = pow2_def round_half_even_def Let_def floor_numeral_div

lemma to_double_0: "to_double 0 = Fin 0"
  by (simp add: to_double_def)














section \<open>Properties of the price lookup\<close>

lemma str_in_sublist: "str_in a b \<longleftrightarrow> sublist a b"
  by (induction b) (auto simp: sublist_Cons_right)

lemma get_price_find:
  "get_price_for_resource d r u cat =
     map_option snd
       (find (\<lambda>((desc, rgn, usage), p).
                sublist d desc \<and> (sublist r rgn \<or> rgn = ''global'') \<and> usage = u) cat)"
  (is "_ = map_option snd (find ?P cat)")
proof (induction cat)
  case Nil
  show ?case by simp
next
  case (Cons e cat)
  obtain desc rgn usage p where e: "e = ((desc, rgn, usage), p)"
    by (metis prod.collapse)
  define c where "c = (sublist d desc \<and> (sublist r rgn \<or> rgn = ''global'') \<and> usage = u)"
  have l: "get_price_for_resource d r u (e # cat) =
      (if c then Some p else get_price_for_resource d r u cat)"
    by (auto simp: e c_def str_in_sublist)
  have r: "find ?P (e # cat) = (if c then Some e else find ?P cat)"
    by (auto simp: e c_def)
  show ?case unfolding l r using Cons.IH by (simp add: e)
qed

lemma get_price_first_match:
  "get_price_for_resource d r u cat = Some p \<longleftrightarrow>
     (\<exists>i<length cat. \<exists>desc rgn. cat ! i = ((desc, rgn, u), p)
        \<and> sublist d desc \<and> (sublist r rgn \<or> rgn = ''global'')
        \<and> (\<forall>j<i. \<forall>desc' rgn' p'. cat ! j = ((desc', rgn', u), p')
              \<longrightarrow> \<not> (sublist d desc' \<and> (sublist r rgn' \<or> rgn' = ''global''))))"
  (is "?L \<longleftrightarrow> ?R")
proof
  let ?P = "\<lambda>((desc, rgn, usage), p).
    sublist d desc \<and> (sublist r rgn \<or> rgn = ''global'') \<and> usage = u"
  assume ?L
  then have "map_option snd (find ?P cat) = Some p"
    by (simp only: get_price_find)
  then have "\<exists>e. find ?P cat = Some e \<and> snd e = p"
    by (simp only: map_option_eq_Some)
  then obtain e where f: "find ?P cat = Some e" and p: "snd e = p"
    by (elim exE conjE)
  from f have "\<exists>i<length cat. ?P (cat ! i) \<and> e = cat ! i \<and> (\<forall>j<i. \<not> ?P (cat ! j))"
    by (simp only: find_Some_iff)
  then obtain i where i: "i < length cat" "?P (cat ! i)" "e = cat ! i" "\<forall>j<i. \<not> ?P (cat ! j)"
    by (elim exE conjE)
  obtain desc rgn usage where e: "e = ((desc, rgn, usage), p)"
    using p by (metis prod.collapse)
  have ci: "cat ! i = ((desc, rgn, usage), p)" using i(3) e by simp
  have m: "sublist d desc" "sublist r rgn \<or> rgn = ''global''" "usage = u"
    using i(2) unfolding ci by simp_all
  have n: "\<not> (sublist d desc' \<and> (sublist r rgn' \<or> rgn' = ''global''))"
    if "j < i" "cat ! j = ((desc', rgn', u), p')" for j desc' rgn' p'
  proof -
    have "\<not> ?P (cat ! j)" using i(4) that(1) by (elim allE impE)
    then show ?thesis unfolding that(2) by simp
  qed
  show ?R
  proof (intro exI conjI allI impI)
    show "i < length cat" by (rule i(1))
    show "cat ! i = ((desc, rgn, u), p)" using ci m(3) by simp
    show "sublist d desc" by (rule m(1))
    show "sublist r rgn \<or> rgn = ''global''" by (rule m(2))
    show "\<not> (sublist d desc' \<and> (sublist r rgn' \<or> rgn' = ''global''))"
      if "j < i" "cat ! j = ((desc', rgn', u), p')" for j desc' rgn' p'
      using that by (rule n)
  qed
next
  let ?P = "\<lambda>((desc, rgn, usage), p).
    sublist d desc \<and> (sublist r rgn \<or> rgn = ''global'') \<and> usage = u"
  assume ?R
  then obtain i desc rgn where i: "i < length cat" "cat ! i = ((desc, rgn, u), p)"
    "sublist d desc" "sublist r rgn \<or> rgn = ''global''"
    and n: "\<forall>j<i. \<forall>desc' rgn' p'. cat ! j = ((desc', rgn', u), p')
              \<longrightarrow> \<not> (sublist d desc' \<and> (sublist r rgn' \<or> rgn' = ''global''))"
    by (elim exE conjE)
  have 1: "?P (cat ! i)" unfolding i(2) using i(3,4) by simp
  have 2: "\<not> ?P (cat ! j)" if "j < i" for j
  proof -
    obtain d' r' u' p' where c: "cat ! j = ((d', r', u'), p')" by (metis prod.collapse)
    show ?thesis
    proof (cases "u' = u")
      case True
      have "cat ! j = ((d', r', u), p')" using c True by simp
      with n that have "\<not> (sublist d d' \<and> (sublist r r' \<or> r' = ''global''))"
        by (elim allE impE)
      then show ?thesis unfolding c by simp
    next
      case False
      then show ?thesis unfolding c by simp
    qed
  qed
  have "\<exists>k<length cat. ?P (cat ! k) \<and> cat ! i = cat ! k \<and> (\<forall>j<k. \<not> ?P (cat ! j))"
    using i(1) 1 2 by (intro exI [of _ i] conjI allI impI) simp_all
  then have "find ?P cat = Some (cat ! i)"
    by (simp only: find_Some_iff)
  then show ?L unfolding get_price_find using i(2) by simp
qed

lemma get_price_member:
  assumes "get_price_for_resource d r u cat = Some p"
  shows "\<exists>desc rgn. ((desc, rgn, u), p) \<in> set cat
           \<and> sublist d desc \<and> (sublist r rgn \<or> rgn = ''global'')"
proof -
  from assms obtain i desc rgn where "i < length cat" "cat ! i = ((desc, rgn, u), p)"
    "sublist d desc" "sublist r rgn \<or> rgn = ''global''"
    unfolding get_price_first_match by (elim exE conjE)
  then show ?thesis by (metis nth_mem)
qed

text \<open>
  C3, as the code has it: an entry answers a query exactly when the description asked
  for is a substring of the stored description, the region asked for is a substring of
  the stored region or the stored region is \<^verbatim>\<open>"global"\<close>, and the usage types are equal.
  Equal regions match, and so does every region that merely occurs inside the stored one.
  Whatever price a lookup returns belongs to such an entry of the catalog.
\<close>

theorem lookup_region_rule:
  "(get_price_for_resource d r u [((desc, rgn, usage), p)] = Some p
      \<longleftrightarrow> sublist d desc \<and> (sublist r rgn \<or> rgn = ''global'') \<and> usage = u)
   \<and> (get_price_for_resource d r u cat = Some q
      \<longrightarrow> (\<exists>desc' rgn'. ((desc', rgn', u), q) \<in> set cat
             \<and> sublist d desc' \<and> (sublist r rgn' \<or> rgn' = ''global'')))"
proof (intro conjI impI)
  show "get_price_for_resource d r u [((desc, rgn, usage), p)] = Some p
      \<longleftrightarrow> sublist d desc \<and> (sublist r rgn \<or> rgn = ''global'') \<and> usage = u"
    by (auto simp: str_in_sublist)
  show "\<exists>desc' rgn'. ((desc', rgn', u), q) \<in> set cat
             \<and> sublist d desc' \<and> (sublist r rgn' \<or> rgn' = ''global'')"
    if "get_price_for_resource d r u cat = Some q"
    using that by (rule get_price_member)
qed

theorem lookup_region_rule_witness:
  "sublist ''SSD'' ''SSD backed PD Capacity''
   \<and> (sublist ''us-east'' ''us-east1'' \<or> ''us-east1'' = ''global'')
   \<and> (\<exists>desc' rgn'. ((desc', rgn', ''OnDemand''), Fin (1 / 8))
          \<in> set [((''SSD backed PD Capacity'', ''us-east1'', ''OnDemand''), Fin (1 / 8))]
        \<and> sublist ''SSD'' desc' \<and> (sublist ''us-east'' rgn' \<or> rgn' = ''global''))"
proof -
  have e: "get_price_for_resource ''SSD'' ''us-east'' ''OnDemand''
      [((''SSD backed PD Capacity'', ''us-east1'', ''OnDemand''), Fin (1 / 8))] = Some (Fin (1 / 8))"
    by simp
  from lookup_region_rule [of "''SSD''" "''us-east''" "''OnDemand''" "''SSD backed PD Capacity''"
      "''us-east1''" "''OnDemand''" "Fin (1 / 8)"
      "[((''SSD backed PD Capacity'', ''us-east1'', ''OnDemand''), Fin (1 / 8))]" "Fin (1 / 8)"] e
  show ?thesis by blast
qed

text \<open>
  C3 as stated fails: the region \<^verbatim>\<open>"us-central"\<close> is neither equal to the stored region
  \<^verbatim>\<open>"us-central1"\<close> nor is the stored region \<^verbatim>\<open>"global"\<close>, and the entry still matches.
\<close>

theorem lookup_region_counterexample:
  "get_price_for_resource ''N1 Predefined Instance Core'' ''us-central'' ''OnDemand''
     [((''N1 Predefined Instance Core'', ''us-central1'', ''OnDemand''), float_lit (3 / 100))]
     = Some (float_lit (3 / 100))
   \<and> ''us-central1'' \<noteq> ''us-central'' \<and> ''us-central1'' \<noteq> ''global''"
  by simp

text \<open>
  C4: the lookup returns the price of the first entry, in the order of the catalog,
  whose description contains the fragment asked for and whose region and usage type
  match; no earlier entry matches. With the two entries of the example, the query for
  \<^verbatim>\<open>us-central1\<close> gets 0.03 from the first and the query for \<^verbatim>\<open>asia-east1\<close> gets 0.05
  from the second, global one.
\<close>

theorem lookup_first_match:
  "(get_price_for_resource d r u cat = Some p \<longleftrightarrow>
     (\<exists>i<length cat. \<exists>desc rgn. cat ! i = ((desc, rgn, u), p)
        \<and> sublist d desc \<and> (sublist r rgn \<or> rgn = ''global'')
        \<and> (\<forall>j<i. \<forall>desc' rgn' p'. cat ! j = ((desc', rgn', u), p')
              \<longrightarrow> \<not> (sublist d desc' \<and> (sublist r rgn' \<or> rgn' = ''global'')))))
   \<and> get_price_for_resource ''N1 Predefined Instance Core'' ''us-central1'' ''OnDemand''
       [((''N1 Predefined Instance Core'', ''us-central1'', ''OnDemand''), float_lit (3 / 100)),
        ((''N1 Predefined Instance Core'', ''global'', ''OnDemand''), float_lit (5 / 100))]
       = Some (float_lit (3 / 100))
   \<and> get_price_for_resource ''N1 Predefined Instance Core'' ''asia-east1'' ''OnDemand''
       [((''N1 Predefined Instance Core'', ''us-central1'', ''OnDemand''), float_lit (3 / 100)),
        ((''N1 Predefined Instance Core'', ''global'', ''OnDemand''), float_lit (5 / 100))]
       = Some (float_lit (5 / 100))"
proof (intro conjI)
  show "get_price_for_resource d r u cat = Some p \<longleftrightarrow>
     (\<exists>i<length cat. \<exists>desc rgn. cat ! i = ((desc, rgn, u), p)
        \<and> sublist d desc \<and> (sublist r rgn \<or> rgn = ''global'')
        \<and> (\<forall>j<i. \<forall>desc' rgn' p'. cat ! j = ((desc', rgn', u), p')
              \<longrightarrow> \<not> (sublist d desc' \<and> (sublist r rgn' \<or> rgn' = ''global''))))"
    by (rule get_price_first_match)
qed simp_all

theorem lookup_first_match_witness:
  "\<exists>i<length [((''SSD backed PD Capacity'', ''asia-east1'', ''OnDemand''), Fin (1 / 4)),
               ((''Regional SSD'', ''global'', ''OnDemand''), Fin (1 / 8))].
     \<exists>desc rgn.
       [((''SSD backed PD Capacity'', ''asia-east1'', ''OnDemand''), Fin (1 / 4)),
        ((''Regional SSD'', ''global'', ''OnDemand''), Fin (1 / 8))] ! i
         = ((desc, rgn, ''OnDemand''), Fin (1 / 8))
       \<and> sublist ''SSD'' desc \<and> (sublist ''us-east1'' rgn \<or> rgn = ''global'')
       \<and> (\<forall>j<i. \<forall>desc' rgn' p'.
             [((''SSD backed PD Capacity'', ''asia-east1'', ''OnDemand''), Fin (1 / 4)),
              ((''Regional SSD'', ''global'', ''OnDemand''), Fin (1 / 8))] ! j
               = ((desc', rgn', ''OnDemand''), p')
             \<longrightarrow> \<not> (sublist ''SSD'' desc' \<and> (sublist ''us-east1'' rgn' \<or> rgn' = ''global'')))"
proof -
  have e: "get_price_for_resource ''SSD'' ''us-east1'' ''OnDemand''
      [((''SSD backed PD Capacity'', ''asia-east1'', ''OnDemand''), Fin (1 / 4)),
       ((''Regional SSD'', ''global'', ''OnDemand''), Fin (1 / 8))] = Some (Fin (1 / 8))"
    by simp
  from lookup_first_match [of "''SSD''" "''us-east1''" "''OnDemand''"
      "[((''SSD backed PD Capacity'', ''asia-east1'', ''OnDemand''), Fin (1 / 4)),
        ((''Regional SSD'', ''global'', ''OnDemand''), Fin (1 / 8))]" "Fin (1 / 8)"] e
  show ?thesis by (elim conjE) (simp only:)
qed

section \<open>Properties of removing and restoring a field\<close>

text \<open>
  C9: removing a field twice is the same as removing it once, for every field name,
  configuration and removal list.
\<close>

theorem removeField_idempotent:
  "removeField field (removeField field st) = removeField field st"
  by (cases st) (simp add: removeField_def keep_step_def)

text \<open>
  The loop keeps the removal list free of duplicates and keeps every removed field out
  of the configuration: both hold when the list is empty, as it is when the session
  starts, and each step preserves them.
\<close>

lemma keep_step_invariant:
  assumes "distinct removed_fields" and "\<forall>f \<in> set removed_fields. editable_rec f = None"
    and "keep_step keep field (editable_rec, removed_fields) = (rec', removed')"
  shows "distinct removed' \<and> (\<forall>f \<in> set removed'. rec' f = None)"
  using assms by (auto simp: keep_step_def split: if_splits)

text \<open>
  C8: in a state where a removed field is absent from the configuration, which holds
  for every field that is not removed, removing one of the four fields and restoring
  it leaves the field with its fixed default, whatever value it had; and restoring a
  field that is not in the removal list changes neither the configuration nor the list.
\<close>

theorem restore_after_remove:
  "((field, v) \<in> {(''compute'', 4), (''memory'', 16), (''storage'', 100), (''budget'', 1000)}
      \<and> (field \<in> set removed_fields \<longrightarrow> editable_rec field = None)
      \<longrightarrow> fst (restoreField field (removeField field (editable_rec, removed_fields))) field
            = Some (PInt v))
   \<and> (field \<notin> set removed_fields
      \<longrightarrow> restoreField field (editable_rec, removed_fields) = (editable_rec, removed_fields))"
  by (auto simp: restoreField_def removeField_def keep_step_def defaults_def get_or_def)

theorem restore_after_remove_witness:
  "fst (restoreField ''memory'' (removeField ''memory''
          ([''memory'' \<mapsto> PInt 64, ''gpu'' \<mapsto> PStr ''None''], [''budget'']))) ''memory''
     = Some (PInt 16)
   \<and> restoreField ''memory'' ([''memory'' \<mapsto> PInt 64, ''gpu'' \<mapsto> PStr ''None''], [''budget''])
     = ([''memory'' \<mapsto> PInt 64, ''gpu'' \<mapsto> PStr ''None''], [''budget''])"
  using restore_after_remove [of "''memory''" 16 "[''budget'']"
      "[''memory'' \<mapsto> PInt 64, ''gpu'' \<mapsto> PStr ''None'']"]
  by simp

section \<open>Properties of the cost estimate\<close>






subsection \<open>The duration\<close>





lemmas date_eval = date_field_def dict_get_def bind_err_def is_digit_def not_hyphen_def
  digit_val_def digits_value_def make_date_def days_in_month_def days_before_year_def
  days_before_month_def is_leap_def

subsection \<open>The GPU price\<close>









section \<open>Properties of the sliders\<close>

lemma int_of_str_eight: "int_of_str ''eight'' = Inl ValueError"
  by (simp add: int_of_str_def Let_def is_space_def is_digit_or_us_def is_digit_def)

text \<open>
  C5, as the code has it: when the stored value of a field is not a dictionary or a list
  and cannot be converted to an integer, the page warns that the value is invalid, seeds
  the slider with the minimum of the field and stores what the slider returns in place
  of the old value. When the stored value is a dictionary or a list, the page warns and
  leaves the configuration as it is.
\<close>

theorem slider_step_invalid:
  "(editable_fields field = Some params \<and> editable_rec field = Some v
      \<and> \<not> is_dict_or_list v \<and> py_int v = Inl e
      \<and> sl field (col_min params) (col_max params) (col_min params) (col_step params) = Inr n
      \<longrightarrow> slider_step sl field editable_rec
            = Inr (editable_rec(field \<mapsto> PInt n), [InvalidValue field]))
   \<and> (editable_fields field = Some params \<and> editable_rec field = Some v \<and> is_dict_or_list v
      \<longrightarrow> slider_step sl field editable_rec = Inr (editable_rec, [SkippingSlider field]))"
  by (simp add: slider_step_def dict_get_def Let_def bind_err_def)

theorem slider_step_invalid_witness:
  "slider_step first_render ''memory'' [''memory'' \<mapsto> PStr ''eight'']
     = Inr ([''memory'' \<mapsto> PStr ''eight''](''memory'' \<mapsto> PInt 1), [InvalidValue ''memory''])
   \<and> slider_step first_render ''memory'' [''memory'' \<mapsto> PList [PInt 8]]
     = Inr ([''memory'' \<mapsto> PList [PInt 8]], [SkippingSlider ''memory''])"
  using slider_step_invalid [of "''memory''" "\<lparr>col_min = 1, col_max = 1024, col_step = 1\<rparr>"
      "[''memory'' \<mapsto> PStr ''eight'']" "PStr ''eight''" ValueError first_render 1]
    slider_step_invalid [of "''memory''" "\<lparr>col_min = 1, col_max = 1024, col_step = 1\<rparr>"
      "[''memory'' \<mapsto> PList [PInt 8]]" "PList [PInt 8]" ValueError first_render 1]
  by (simp add: editable_fields_def int_of_str_eight first_render_def)

text \<open>
  C5 as stated fails: the field \<^verbatim>\<open>compute\<close> holds the text \<^verbatim>\<open>eight\<close>, which is no
  integer; the page warns, and the field then holds 1, the minimum, not the text.
\<close>

theorem slider_step_counterexample:
  "py_int (PStr ''eight'') = Inl ValueError
   \<and> slider_step first_render ''compute'' [''compute'' \<mapsto> PStr ''eight'']
     = Inr ([''compute'' \<mapsto> PInt 1], [InvalidValue ''compute''])"
  by (simp add: slider_step_def dict_get_def Let_def bind_err_def int_of_str_eight
      editable_fields_def first_render_def)

section \<open>Properties of the ingestion\<close>

lemma price_infos_skip:
  assumes "\<forall>info \<in> set infos.
    get_or (tieredRates (get_or (pricingExpression info) \<lparr>tieredRates = None\<rparr>)) [] = []"
  shows "price_infos_loop key infos m = (m, None)"
  using assms by (induction infos) (simp_all add: Let_def)

lemma price_missing: "price_per_unit \<lparr>unitPrice = None\<rparr> = Inr (Fin 0)"
  by (simp add: price_per_unit_def get_or_def Let_def float_of_int_def to_double_0 bind_err_def)

lemma dict_set_idem: "dict_set (dict_set m k v) k v = dict_set m k v"
  by (induction m) auto

lemma map_of_dict_set: "map_of (dict_set m k v) k = Some v"
  by (induction m) auto

lemma price_infos_missing:
  assumes "\<forall>info \<in> set infos.
      case get_or (tieredRates (get_or (pricingExpression info) \<lparr>tieredRates = None\<rparr>)) [] of
        [] \<Rightarrow> True
      | rate # rates \<Rightarrow> unitPrice rate = None"
  shows "price_infos_loop key infos m =
      (if \<exists>info \<in> set infos.
            get_or (tieredRates (get_or (pricingExpression info) \<lparr>tieredRates = None\<rparr>)) [] \<noteq> []
       then dict_set m key (Fin 0) else m, None)"
  using assms
proof (induction infos arbitrary: m)
  case Nil
  show ?case by simp
next
  case (Cons info infos)
  define tiers where
    "tiers = get_or (tieredRates (get_or (pricingExpression info) \<lparr>tieredRates = None\<rparr>)) []"
  have rest: "\<forall>info \<in> set infos.
      case get_or (tieredRates (get_or (pricingExpression info) \<lparr>tieredRates = None\<rparr>)) [] of
        [] \<Rightarrow> True
      | rate # rates \<Rightarrow> unitPrice rate = None"
    using Cons.prems by simp
  note ih = Cons.IH [OF rest]
  show ?case
  proof (cases tiers)
    case Nil
    then show ?thesis using ih [of m] by (simp add: tiers_def Let_def)
  next
    case (Cons rate rates)
    then have "unitPrice rate = None" using Cons.prems by (simp add: tiers_def)
    then have "rate = \<lparr>unitPrice = None\<rparr>" by (cases rate) simp
    then have p: "price_per_unit rate = Inr (Fin 0)" by (simp add: price_missing)
    show ?thesis
      using ih [of "dict_set m key (Fin 0)"] Cons p
      by (simp add: tiers_def [symmetric] Let_def dict_set_idem)
  qed
qed

lemma sku_missing_price:
  assumes "category s = Some c" and "serviceDisplayName c = Some service_name"
    and "str_in ''Compute Engine'' service_name"
    and "pricingInfo s = Some infos"
    and "\<forall>info \<in> set infos.
      case get_or (tieredRates (get_or (pricingExpression info) \<lparr>tieredRates = None\<rparr>)) [] of
        [] \<Rightarrow> True
      | rate # rates \<Rightarrow> unitPrice rate = None"
    and "\<exists>info \<in> set infos.
      get_or (tieredRates (get_or (pricingExpression info) \<lparr>tieredRates = None\<rparr>)) [] \<noteq> []"
  shows "sku_step s m =
      (dict_set m (get_or (description s) [],
                   (case serviceRegions s of Some (r # rs) \<Rightarrow> r | _ \<Rightarrow> []),
                   get_or (usageType c) []) (Fin 0), None)"
  using assms(1-4,6) price_infos_missing [OF assms(5)]
  by (simp add: sku_step_def Let_def get_or_def)

text \<open>
  C6, as the code has it: a Compute Engine record that has no pricing information, or
  whose pricing entries have no pricing expression, no tiered rates or an empty list of
  them, adds nothing to the catalog and raises nothing, and the loop goes on with the
  records after it. A first tier without a unit price is not skipped: its price is 0,
  and a Compute Engine record whose pricing entries have no tiers or such a first tier,
  with at least one that has tiers, is stored under its key with the price 0 and the
  loop goes on with the records after it.
\<close>

theorem malformed_record_skipped:
  "(category s = Some c \<and> serviceDisplayName c = Some service_name
      \<and> (\<forall>info \<in> set (get_or (pricingInfo s) []).
            get_or (tieredRates (get_or (pricingExpression info) \<lparr>tieredRates = None\<rparr>)) [] = [])
      \<longrightarrow> sku_step s m = (m, None) \<and> skus_loop (s # rest) m = skus_loop rest m)
   \<and> price_per_unit \<lparr>unitPrice = None\<rparr> = Inr (Fin 0)
   \<and> (category s = Some c \<and> serviceDisplayName c = Some service_name
      \<and> str_in ''Compute Engine'' service_name \<and> pricingInfo s = Some infos
      \<and> (\<forall>info \<in> set infos.
            case get_or (tieredRates (get_or (pricingExpression info) \<lparr>tieredRates = None\<rparr>)) [] of
              [] \<Rightarrow> True
            | rate # rates \<Rightarrow> unitPrice rate = None)
      \<and> (\<exists>info \<in> set infos.
            get_or (tieredRates (get_or (pricingExpression info) \<lparr>tieredRates = None\<rparr>)) [] \<noteq> [])
      \<and> key = (get_or (description s) [],
                (case serviceRegions s of Some (r # rs) \<Rightarrow> r | _ \<Rightarrow> []),
                get_or (usageType c) [])
      \<longrightarrow> sku_step s m = (dict_set m key (Fin 0), None)
          \<and> map_of (fst (sku_step s m)) key = Some (Fin 0)
          \<and> skus_loop (s # rest) m = skus_loop rest (dict_set m key (Fin 0)))"
proof (intro conjI impI)
  show "sku_step s m = (m, None)"
    if "category s = Some c \<and> serviceDisplayName c = Some service_name
      \<and> (\<forall>info \<in> set (get_or (pricingInfo s) []).
            get_or (tieredRates (get_or (pricingExpression info) \<lparr>tieredRates = None\<rparr>)) [] = [])"
    using that by (simp add: sku_step_def Let_def price_infos_skip)
  then show "skus_loop (s # rest) m = skus_loop rest m"
    if "category s = Some c \<and> serviceDisplayName c = Some service_name
      \<and> (\<forall>info \<in> set (get_or (pricingInfo s) []).
            get_or (tieredRates (get_or (pricingExpression info) \<lparr>tieredRates = None\<rparr>)) [] = [])"
    using that by simp
  show "price_per_unit \<lparr>unitPrice = None\<rparr> = Inr (Fin 0)" by (rule price_missing)
next
  assume a: "category s = Some c \<and> serviceDisplayName c = Some service_name
      \<and> str_in ''Compute Engine'' service_name \<and> pricingInfo s = Some infos
      \<and> (\<forall>info \<in> set infos.
            case get_or (tieredRates (get_or (pricingExpression info) \<lparr>tieredRates = None\<rparr>)) [] of
              [] \<Rightarrow> True
            | rate # rates \<Rightarrow> unitPrice rate = None)
      \<and> (\<exists>info \<in> set infos.
            get_or (tieredRates (get_or (pricingExpression info) \<lparr>tieredRates = None\<rparr>)) [] \<noteq> [])
      \<and> key = (get_or (description s) [],
                (case serviceRegions s of Some (r # rs) \<Rightarrow> r | _ \<Rightarrow> []),
                get_or (usageType c) [])"
  from a have st: "sku_step s m = (dict_set m key (Fin 0), None)"
    using sku_missing_price [of s c service_name infos m] by simp
  show "sku_step s m = (dict_set m key (Fin 0), None)" by (rule st)
  show "map_of (fst (sku_step s m)) key = Some (Fin 0)"
    by (simp add: st map_of_dict_set)
  show "skus_loop (s # rest) m = skus_loop rest (dict_set m key (Fin 0))"
    by (simp add: st)
qed

theorem malformed_record_skipped_witness:
  "sku_step \<lparr>description = Some ''N1 Predefined Instance Core'',
       category = Some \<lparr>serviceDisplayName = Some ''Compute Engine'', usageType = Some ''OnDemand''\<rparr>,
       serviceRegions = Some [''us-central1''],
       pricingInfo = Some [\<lparr>pricingExpression = Some \<lparr>tieredRates = Some []\<rparr>\<rparr>,
                           \<lparr>pricingExpression = None\<rparr>]\<rparr>
     [((''SSD'', ''global'', ''OnDemand''), Fin (1 / 8))]
     = ([((''SSD'', ''global'', ''OnDemand''), Fin (1 / 8))], None)
   \<and> sku_step \<lparr>description = Some ''N1 Predefined Instance Ram'',
       category = Some \<lparr>serviceDisplayName = Some ''Compute Engine'', usageType = Some ''OnDemand''\<rparr>,
       serviceRegions = Some [''europe-west1'', ''europe-west4''],
       pricingInfo = Some [\<lparr>pricingExpression = None\<rparr>,
                           \<lparr>pricingExpression = Some \<lparr>tieredRates = Some
                              [\<lparr>unitPrice = None\<rparr>,
                               \<lparr>unitPrice = Some \<lparr>units = Some 1, nanos = None\<rparr>\<rparr>]\<rparr>\<rparr>]\<rparr>
     [((''SSD'', ''global'', ''OnDemand''), Fin (1 / 8))]
     = ([((''SSD'', ''global'', ''OnDemand''), Fin (1 / 8)),
         ((''N1 Predefined Instance Ram'', ''europe-west1'', ''OnDemand''), Fin 0)], None)"
proof -
  have a: "sku_step \<lparr>description = Some ''N1 Predefined Instance Core'',
       category = Some \<lparr>serviceDisplayName = Some ''Compute Engine'', usageType = Some ''OnDemand''\<rparr>,
       serviceRegions = Some [''us-central1''],
       pricingInfo = Some [\<lparr>pricingExpression = Some \<lparr>tieredRates = Some []\<rparr>\<rparr>,
                           \<lparr>pricingExpression = None\<rparr>]\<rparr>
     [((''SSD'', ''global'', ''OnDemand''), Fin (1 / 8))]
     = ([((''SSD'', ''global'', ''OnDemand''), Fin (1 / 8))], None)"
    using malformed_record_skipped [where
        s = "\<lparr>description = Some ''N1 Predefined Instance Core'',
          category = Some \<lparr>serviceDisplayName = Some ''Compute Engine'', usageType = Some ''OnDemand''\<rparr>,
          serviceRegions = Some [''us-central1''],
          pricingInfo = Some [\<lparr>pricingExpression = Some \<lparr>tieredRates = Some []\<rparr>\<rparr>,
                              \<lparr>pricingExpression = None\<rparr>]\<rparr>"
        and c = "\<lparr>serviceDisplayName = Some ''Compute Engine'', usageType = Some ''OnDemand''\<rparr>"
        and service_name = "''Compute Engine''"
        and m = "[((''SSD'', ''global'', ''OnDemand''), Fin (1 / 8))]"]
    by (simp add: get_or_def)
  have b: "sku_step \<lparr>description = Some ''N1 Predefined Instance Ram'',
       category = Some \<lparr>serviceDisplayName = Some ''Compute Engine'', usageType = Some ''OnDemand''\<rparr>,
       serviceRegions = Some [''europe-west1'', ''europe-west4''],
       pricingInfo = Some [\<lparr>pricingExpression = None\<rparr>,
                           \<lparr>pricingExpression = Some \<lparr>tieredRates = Some
                              [\<lparr>unitPrice = None\<rparr>,
                               \<lparr>unitPrice = Some \<lparr>units = Some 1, nanos = None\<rparr>\<rparr>]\<rparr>\<rparr>]\<rparr>
     [((''SSD'', ''global'', ''OnDemand''), Fin (1 / 8))]
     = ([((''SSD'', ''global'', ''OnDemand''), Fin (1 / 8)),
         ((''N1 Predefined Instance Ram'', ''europe-west1'', ''OnDemand''), Fin 0)], None)"
    using malformed_record_skipped [where
        s = "\<lparr>description = Some ''N1 Predefined Instance Ram'',
          category = Some \<lparr>serviceDisplayName = Some ''Compute Engine'', usageType = Some ''OnDemand''\<rparr>,
          serviceRegions = Some [''europe-west1'', ''europe-west4''],
          pricingInfo = Some [\<lparr>pricingExpression = None\<rparr>,
                              \<lparr>pricingExpression = Some \<lparr>tieredRates = Some
                                 [\<lparr>unitPrice = None\<rparr>,
                                  \<lparr>unitPrice = Some \<lparr>units = Some 1, nanos = None\<rparr>\<rparr>]\<rparr>\<rparr>]\<rparr>"
        and c = "\<lparr>serviceDisplayName = Some ''Compute Engine'', usageType = Some ''OnDemand''\<rparr>"
        and service_name = "''Compute Engine''"
        and infos = "[\<lparr>pricingExpression = None\<rparr>,
                      \<lparr>pricingExpression = Some \<lparr>tieredRates = Some
                         [\<lparr>unitPrice = None\<rparr>,
                          \<lparr>unitPrice = Some \<lparr>units = Some 1, nanos = None\<rparr>\<rparr>]\<rparr>\<rparr>]"
        and key = "(''N1 Predefined Instance Ram'', ''europe-west1'', ''OnDemand'')"
        and m = "[((''SSD'', ''global'', ''OnDemand''), Fin (1 / 8))]"]
    by (simp add: get_or_def)
  from a b show ?thesis by (rule conjI)
qed

text \<open>
  C6 as stated fails: the record has one tier and the tier has no unit price; an entry
  for the record is added, with the price 0.
\<close>

theorem malformed_record_counterexample:
  "sku_step \<lparr>description = Some ''N1 Predefined Instance Core'',
       category = Some \<lparr>serviceDisplayName = Some ''Compute Engine'', usageType = Some ''OnDemand''\<rparr>,
       serviceRegions = Some [''us-central1''],
       pricingInfo = Some [\<lparr>pricingExpression = Some \<lparr>tieredRates = Some [\<lparr>unitPrice = None\<rparr>]\<rparr>\<rparr>]\<rparr>
     []
     = ([((''N1 Predefined Instance Core'', ''us-central1'', ''OnDemand''), Fin 0)], None)"
  by (simp add: sku_step_def Let_def get_or_def price_missing)

section \<open>The worked example and the number of days\<close>

lemma lit_cpu: "float_lit (3 / 100) = Fin (1080863910568919 / 36028797018963968)"
  unfolding float_lit_def using to_double_normal [of "- 6" "3 / 100"] by (simp add: float_eval)

lemma lit_mem: "float_lit (1 / 100) = Fin (5764607523034235 / 576460752303423488)"
  unfolding float_lit_def using to_double_normal [of "- 7" "1 / 100"] by (simp add: float_eval)

lemma lit_ssd: "float_lit (1 / 1000) = Fin (1152921504606847 / 1152921504606846976)"
  unfolding float_lit_def using to_double_normal [of "- 10" "1 / 1000"] by (simp add: float_eval)

lemma lit_total: "float_lit (1824 / 100) = Fin (5134103575202365 / 281474976710656)"
  unfolding float_lit_def using to_double_normal [of 4 "1824 / 100"] by (simp add: float_eval)

lemma conv_4: "float_of_int 4 = Inr (Fin 4)"
  unfolding float_of_int_def using to_double_normal [of 2 4] by (simp add: float_eval)

lemma conv_16: "float_of_int 16 = Inr (Fin 16)"
  unfolding float_of_int_def using to_double_normal [of 4 16] by (simp add: float_eval)

lemma conv_100: "float_of_int 100 = Inr (Fin 100)"
  unfolding float_of_int_def using to_double_normal [of 6 100] by (simp add: float_eval)

lemma conv_48: "float_of_int 48 = Inr (Fin 48)"
  unfolding float_of_int_def using to_double_normal [of 5 48] by (simp add: float_eval)

lemma conv_0: "float_of_int 0 = Inr (Fin 0)"
  by (simp add: float_of_int_def to_double_0)

lemma mul_cpu: "num_mul (NFloat (Fin (1080863910568919 / 36028797018963968))) (NInt 4)
    = Inr (NFloat (Fin (1080863910568919 / 9007199254740992)))"
  using to_double_normal [of "- 4" "1080863910568919 / 36028797018963968 * 4"]
  by (simp add: bind_err_def conv_4 float_eval)

lemma mul_mem: "num_mul (NFloat (Fin (5764607523034235 / 576460752303423488))) (NInt 16)
    = Inr (NFloat (Fin (5764607523034235 / 36028797018963968)))"
  using to_double_normal [of "- 3" "5764607523034235 / 576460752303423488 * 16"]
  by (simp add: bind_err_def conv_16 float_eval)

lemma add_cpu_mem: "num_add (NFloat (Fin (1080863910568919 / 9007199254740992)))
      (NFloat (Fin (5764607523034235 / 36028797018963968)))
    = Inr (NFloat (Fin (1261007895663739 / 4503599627370496)))"
  using to_double_normal [of "- 2" "1080863910568919 / 9007199254740992 + 5764607523034235 / 36028797018963968"]
  by (simp add: bind_err_def float_eval)

lemma mul_ssd: "num_mul (NFloat (Fin (1152921504606847 / 1152921504606846976))) (NInt 100)
    = Inr (NFloat (Fin (3602879701896397 / 36028797018963968)))"
  using to_double_normal [of "- 4" "1152921504606847 / 1152921504606846976 * 100"]
  by (simp add: bind_err_def conv_100 float_eval)

lemma add_ssd: "num_add (NFloat (Fin (1261007895663739 / 4503599627370496)))
      (NFloat (Fin (3602879701896397 / 36028797018963968)))
    = Inr (NFloat (Fin (3422735716801577 / 9007199254740992)))"
  using to_double_normal [of "- 2" "1261007895663739 / 4503599627370496 + 3602879701896397 / 36028797018963968"]
  by (simp add: bind_err_def float_eval)

lemma add_gpu: "num_add (NFloat (Fin (3422735716801577 / 9007199254740992))) (NInt 0)
    = Inr (NFloat (Fin (3422735716801577 / 9007199254740992)))"
  using to_double_normal [of "- 2" "3422735716801577 / 9007199254740992"]
  by (simp add: bind_err_def conv_0 float_eval)

lemma mul_hours: "num_mul (NFloat (Fin (3422735716801577 / 9007199254740992))) (NInt 48)
    = Inr (NFloat (Fin (2567051787601183 / 140737488355328)))"
  using to_double_normal [of 4 "3422735716801577 / 9007199254740992 * 48"]
  by (simp add: bind_err_def conv_48 float_eval)

lemma round_total: "py_round2 (NFloat (Fin (2567051787601183 / 140737488355328)))
    = Inr (NFloat (Fin (5134103575202365 / 281474976710656)))"
  using to_double_normal [of 4 "456 / 25"]
  by (simp add: bind_err_def float_eval)

lemma example_total:
  "total_cost (NFloat (Fin (1080863910568919 / 36028797018963968))) 4
     (NFloat (Fin (5764607523034235 / 576460752303423488))) 16
     (NFloat (Fin (1152921504606847 / 1152921504606846976))) 100 (NInt 0) 48
   = Inr (NFloat (Fin (2567051787601183 / 140737488355328)))"
  unfolding total_cost_def
  by (simp only: mul_cpu mul_mem add_cpu_mem mul_ssd add_ssd add_gpu mul_hours bind_err_def sum.case)


text \<open>
  C1: for the configuration of four vCPUs, 16 GB of memory, 100 GB of storage, no GPU and
  the dates 2025-08-01 and 2025-08-03, in the region \<^verbatim>\<open>us-central1\<close>, any catalog
  whose three lookups give the prices 0.03, 0.01 and 0.001 yields the total 18.24 and two
  days. The prices, the products, the sums and the total are binary64 numbers: the
  hourly cost times 48 is 18.240000000000002, which \<^verbatim>\<open>round(total, 2)\<close> turns into the
  float 18.24.
\<close>

theorem estimate_example:
  assumes "get_price_for_resource ''N1 Predefined Instance Core'' ''us-central1'' ''OnDemand'' cat
      = Some (float_lit (3 / 100))"
    and "get_price_for_resource ''N1 Predefined Instance Ram'' ''us-central1'' ''OnDemand'' cat
      = Some (float_lit (1 / 100))"
    and "get_price_for_resource ''SSD'' ''us-central1'' ''OnDemand'' cat
      = Some (float_lit (1 / 1000))"
  shows "estimate_billing_cost_from_api
      [''compute'' \<mapsto> PInt 4, ''memory'' \<mapsto> PInt 16, ''storage'' \<mapsto> PInt 100,
       ''gpu'' \<mapsto> PStr ''None'', ''start_date'' \<mapsto> PStr ''2025-08-01'',
       ''end_date'' \<mapsto> PStr ''2025-08-03'']
      ''us-central1'' cat
    = Inr (NFloat (float_lit (1824 / 100)), 2)"
proof -
  define config :: config where "config =
      [''compute'' \<mapsto> PInt 4, ''memory'' \<mapsto> PInt 16, ''storage'' \<mapsto> PInt 100,
       ''gpu'' \<mapsto> PStr ''None'', ''start_date'' \<mapsto> PStr ''2025-08-01'',
       ''end_date'' \<mapsto> PStr ''2025-08-03'']"
  have counts: "count_field config ''compute'' = 4" "count_field config ''memory'' = 16"
    "count_field config ''storage'' = 100"
    by (simp_all add: config_def count_field_def dict_get_def py_or_def)
  have days: "duration_days config = 2"
    by (simp add: config_def duration_days_def date_eval)
  have gpu: "gpu_price config ''us-central1'' cat = NInt 0"
    by (simp add: config_def gpu_price_def gpu_desc_def dict_get_def py_or_def gpu_desc_map_def)
  have prices:
    "price_or_zero (Some (float_lit (3 / 100))) = NFloat (Fin (1080863910568919 / 36028797018963968))"
    "price_or_zero (Some (float_lit (1 / 100))) = NFloat (Fin (5764607523034235 / 576460752303423488))"
    "price_or_zero (Some (float_lit (1 / 1000))) = NFloat (Fin (1152921504606847 / 1152921504606846976))"
    by (simp_all add: price_or_zero_def lit_cpu lit_mem lit_ssd)
  have hours: "(2::int) * 24 = 48" by simp
  have "estimate_billing_cost_from_api config ''us-central1'' cat
      = Inr (NFloat (Fin (5134103575202365 / 281474976710656)), 2)"
    unfolding estimate_billing_cost_from_api_def Let_def assms counts days gpu prices hours
    by (simp only: example_total round_total bind_err_def sum.case)
  then show ?thesis by (simp only: config_def lit_total)
qed

theorem estimate_example_witness:
  "estimate_billing_cost_from_api
      [''compute'' \<mapsto> PInt 4, ''memory'' \<mapsto> PInt 16, ''storage'' \<mapsto> PInt 100,
       ''gpu'' \<mapsto> PStr ''None'', ''start_date'' \<mapsto> PStr ''2025-08-01'',
       ''end_date'' \<mapsto> PStr ''2025-08-03'']
      ''us-central1''
      [((''N1 Predefined Instance Core'', ''us-central1'', ''OnDemand''), float_lit (3 / 100)),
       ((''N1 Predefined Instance Ram'', ''us-central1'', ''OnDemand''), float_lit (1 / 100)),
       ((''SSD backed PD Capacity'', ''us-central1'', ''OnDemand''), float_lit (1 / 1000))]
    = Inr (NFloat (float_lit (1824 / 100)), 2)"
  by (rule estimate_example) simp_all

subsection \<open>The estimate returns\<close>



































end
